theory Spec2Isabelle
  imports Complex_Main
begin

section \<open>Data model\<close>

text \<open>
  The calculation engine of the real-estate investment tool
  (\<^verbatim>\<open>src/finance_engine.py\<close> and \<^verbatim>\<open>src/tax_calculator.py\<close>).
  Python's \<^verbatim>\<open>int\<close> is \<^typ>\<open>int\<close>. A Python \<^verbatim>\<open>float\<close> is an IEEE double; its value is
  a \<^typ>\<open>real\<close>. The functions are first modelled in exact arithmetic, every operation
  returning the exact result. The amortization loop, whose row-by-row properties depend on
  rounding, is modelled a second time below with every float operation followed by a
  rounding function (section ``Double-precision arithmetic'').
  Exceptions are values of \<open>py_error\<close>; a function that can raise returns
  \<open>py_error + 'a\<close> with \<open>Inl\<close> for the exception.

  Record fields carry a short prefix where the source's field name is also the name of a
  function parameter (\<open>fe_\<close> for FinanzierungErgebnis, \<open>re_\<close> for RenditeErgebnis,
  \<open>sd_\<close> for Steuerdaten, \<open>sa_\<close> for SteuerlicheAbsetzbarkeit, \<open>v_\<close> for the columns of
  the wealth table that share a name with a column of the amortization table).
\<close>

datatype py_error = ZeroDivisionError | IndexError

text \<open>Python's \<^verbatim>\<open>a / b\<close> on floats raises ZeroDivisionError when \<^verbatim>\<open>b == 0\<close>.\<close>

definition truediv :: "real \<Rightarrow> real \<Rightarrow> py_error + real" where
  "truediv a b = (if b = 0 then Inl ZeroDivisionError else Inr (a / b))"

text \<open>\<^verbatim>\<open>series.iloc[0]\<close> raises IndexError on an empty column.\<close>

definition iloc0 :: "'a list \<Rightarrow> py_error + 'a" where
  "iloc0 xs = (case xs of [] \<Rightarrow> Inl IndexError | x # _ \<Rightarrow> Inr x)"

record FinanzierungErgebnis =
  fe_darlehensbetrag :: real
  fe_monatliche_rate :: real
  fe_jaehrliche_rate :: real
  fe_gesamtkosten :: real
  fe_zinsen_gesamt :: real

record RenditeErgebnis =
  re_brutto_mietrendite :: real
  re_netto_mietrendite :: real
  re_eigenkapitalrendite :: real
  re_objektrendite :: real
  re_cashflow_rendite :: real

text \<open>
  One row of the DataFrame returned by \<^verbatim>\<open>berechne_tilgungsplan\<close>; the DataFrame is the
  list of its rows, and \<^verbatim>\<open>df.empty\<close> is the list being empty.
\<close>

record tilgungsplan_row =
  Jahr :: int
  Zinsanteil :: real
  Tilgungsanteil :: real
  Restschuld :: real
  Zinsen_kumuliert :: real
  Tilgung_kumuliert :: real

text \<open>One row of the DataFrame returned by \<^verbatim>\<open>berechne_vermoegensaufbau\<close>.\<close>

record vermoegen_row =
  v_Jahr :: int
  Immobilienwert :: real
  v_Restschuld :: real
  Nettovermoegen :: real
  Cashflow_kumuliert :: real
  Gesamtvermoegen :: real







section \<open>finance\_engine.py\<close>


definition berechne_annuitaet :: "real \<Rightarrow> real \<Rightarrow> real \<Rightarrow> int \<Rightarrow> FinanzierungErgebnis" where
  "berechne_annuitaet darlehensbetrag zinssatz_prozent tilgung_prozent laufzeit_jahre =
     (let annuitaet_prozent = zinssatz_prozent + tilgung_prozent;
          jaehrliche_rate = darlehensbetrag * annuitaet_prozent / 100;
          monatliche_rate = jaehrliche_rate / 12;
          gesamtkosten = jaehrliche_rate * real_of_int laufzeit_jahre;
          zinsen_gesamt = gesamtkosten - darlehensbetrag
      in \<lparr>fe_darlehensbetrag = darlehensbetrag,
          fe_monatliche_rate = monatliche_rate,
          fe_jaehrliche_rate = jaehrliche_rate,
          fe_gesamtkosten = max gesamtkosten darlehensbetrag,
          fe_zinsen_gesamt = max zinsen_gesamt 0\<rparr>)"

text \<open>
  The body of the \<^verbatim>\<open>for jahr in range(1, laufzeit_jahre + 1)\<close> loop of
  \<^verbatim>\<open>berechne_tilgungsplan\<close>, over the years still to come. The loop state is
  \<open>restschuld\<close>, \<open>zinsen_kumuliert\<close>, \<open>tilgung_kumuliert\<close>; the six lists the source
  appends to are the columns of the returned rows. \<^verbatim>\<open>break\<close> ends the recursion.
\<close>

fun tilgungsplan_loop ::
  "real \<Rightarrow> real \<Rightarrow> int list \<Rightarrow> real \<Rightarrow> real \<Rightarrow> real \<Rightarrow> tilgungsplan_row list" where
  "tilgungsplan_loop zinssatz annuitaet [] restschuld zinsen_kumuliert tilgung_kumuliert = []"
| "tilgungsplan_loop zinssatz annuitaet (jahr # jahre) restschuld zinsen_kumuliert tilgung_kumuliert =
     (if restschuld \<le> 0 then []
      else
        let zinsanteil = restschuld * zinssatz;
            tilgungsanteil = min (annuitaet - zinsanteil) restschuld;
            restschuld' = max 0 (restschuld - tilgungsanteil);
            zinsen_kumuliert' = zinsen_kumuliert + zinsanteil;
            tilgung_kumuliert' = tilgung_kumuliert + tilgungsanteil
        in \<lparr>Jahr = jahr,
            Zinsanteil = zinsanteil,
            Tilgungsanteil = tilgungsanteil,
            Restschuld = restschuld',
            Zinsen_kumuliert = zinsen_kumuliert',
            Tilgung_kumuliert = tilgung_kumuliert'\<rparr>
           # tilgungsplan_loop zinssatz annuitaet jahre restschuld' zinsen_kumuliert' tilgung_kumuliert')"

text \<open>\<^verbatim>\<open>range(1, laufzeit_jahre + 1)\<close> is \<open>[1..laufzeit_jahre]\<close>, empty when \<open>laufzeit_jahre < 1\<close>.\<close>

definition berechne_tilgungsplan :: "real \<Rightarrow> real \<Rightarrow> real \<Rightarrow> int \<Rightarrow> tilgungsplan_row list" where
  "berechne_tilgungsplan darlehensbetrag zinssatz_prozent tilgung_prozent laufzeit_jahre =
     (let zinssatz = zinssatz_prozent / 100;
          annuitaet = darlehensbetrag * (zinssatz_prozent + tilgung_prozent) / 100
      in tilgungsplan_loop zinssatz annuitaet [1..laufzeit_jahre] darlehensbetrag 0 0)"

text \<open>
  \<^verbatim>\<open>berechne_renditen\<close>. A conditional expression \<^verbatim>\<open>x / d * 100 if d > 0 else 0\<close>
  evaluates the division only when the test holds.
\<close>

definition berechne_renditen ::
  "real \<Rightarrow> real \<Rightarrow> real \<Rightarrow> real \<Rightarrow> real \<Rightarrow> real \<Rightarrow> py_error + RenditeErgebnis" where
  "berechne_renditen kaufpreis nebenkosten eigenkapital brutto_mieteinnahmen
       netto_mieteinnahmen cashflow_nach_steuern =
     (let gesamtinvestition = kaufpreis + nebenkosten in
      case (if kaufpreis > 0
            then map_sum id (\<lambda>q. q * 100) (truediv brutto_mieteinnahmen kaufpreis)
            else Inr 0) of
        Inl e \<Rightarrow> Inl e
      | Inr brutto_mietrendite \<Rightarrow>
      case (if gesamtinvestition > 0
            then map_sum id (\<lambda>q. q * 100) (truediv netto_mieteinnahmen gesamtinvestition)
            else Inr 0) of
        Inl e \<Rightarrow> Inl e
      | Inr netto_mietrendite \<Rightarrow>
      case (if eigenkapital > 0
            then map_sum id (\<lambda>q. q * 100) (truediv cashflow_nach_steuern eigenkapital)
            else Inr 0) of
        Inl e \<Rightarrow> Inl e
      | Inr eigenkapitalrendite \<Rightarrow>
      let objektrendite = netto_mietrendite in
      case (if gesamtinvestition > 0
            then map_sum id (\<lambda>q. q * 100) (truediv cashflow_nach_steuern gesamtinvestition)
            else Inr 0) of
        Inl e \<Rightarrow> Inl e
      | Inr cashflow_rendite \<Rightarrow>
          Inr \<lparr>re_brutto_mietrendite = brutto_mietrendite,
               re_netto_mietrendite = netto_mietrendite,
               re_eigenkapitalrendite = eigenkapitalrendite,
               re_objektrendite = objektrendite,
               re_cashflow_rendite = cashflow_rendite\<rparr>)"

text \<open>
  The \<^verbatim>\<open>for i, jahr in enumerate(jahre)\<close> loop of \<^verbatim>\<open>berechne_vermoegensaufbau\<close>. The
  loop state is \<open>immobilienwert\<close> and \<open>cf_kumuliert\<close>; \<^verbatim>\<open>restschulden[i]\<close> is the
  Restschuld column of the row the loop is at.
\<close>

fun vermoegen_loop :: "real \<Rightarrow> real \<Rightarrow> tilgungsplan_row list \<Rightarrow> real \<Rightarrow> real \<Rightarrow> vermoegen_row list" where
  "vermoegen_loop cashflow_jaehrlich wertsteigerung_prozent [] immobilienwert cf_kumuliert = []"
| "vermoegen_loop cashflow_jaehrlich wertsteigerung_prozent (row # rows) immobilienwert cf_kumuliert =
     (let immobilienwert' = immobilienwert * (1 + wertsteigerung_prozent / 100);
          netto = immobilienwert' - Restschuld row;
          cf_kumuliert' = cf_kumuliert + cashflow_jaehrlich
      in \<lparr>v_Jahr = Jahr row,
          Immobilienwert = immobilienwert',
          v_Restschuld = Restschuld row,
          Nettovermoegen = netto,
          Cashflow_kumuliert = cf_kumuliert',
          Gesamtvermoegen = netto + cf_kumuliert'\<rparr>
         # vermoegen_loop cashflow_jaehrlich wertsteigerung_prozent rows immobilienwert' cf_kumuliert')"

text \<open>
  \<open>startwert\<close> is the value of \<^verbatim>\<open>immobilienwert\<close> at line 308, before the loop: the
  local \<^verbatim>\<open>darlehensbetrag\<close> of line 301 is
  \<^verbatim>\<open>Restschuld.iloc[0] + Tilgung kumuliert.iloc[0] - Tilgungsanteil.iloc[0]\<close>.
\<close>

definition startwert :: "real \<Rightarrow> tilgungsplan_row list \<Rightarrow> real \<Rightarrow> py_error + real" where
  "startwert eigenkapital tilgungsplan kaufpreis =
     (case iloc0 (map Restschuld tilgungsplan) of Inl e \<Rightarrow> Inl e | Inr r0 \<Rightarrow>
      case iloc0 (map Tilgung_kumuliert tilgungsplan) of Inl e \<Rightarrow> Inl e | Inr tk0 \<Rightarrow>
      case iloc0 (map Tilgungsanteil tilgungsplan) of Inl e \<Rightarrow> Inl e | Inr t0 \<Rightarrow>
      let darlehensbetrag = r0 + tk0 - t0
      in Inr (if kaufpreis > 0 then kaufpreis else darlehensbetrag + eigenkapital))"

definition berechne_vermoegensaufbau ::
  "real \<Rightarrow> tilgungsplan_row list \<Rightarrow> real \<Rightarrow> real \<Rightarrow> real \<Rightarrow> py_error + vermoegen_row list" where
  "berechne_vermoegensaufbau eigenkapital tilgungsplan cashflow_jaehrlich wertsteigerung_prozent kaufpreis =
     (if tilgungsplan = [] then Inr []
      else case startwert eigenkapital tilgungsplan kaufpreis of
             Inl e \<Rightarrow> Inl e
           | Inr immobilienwert \<Rightarrow>
               Inr (vermoegen_loop cashflow_jaehrlich wertsteigerung_prozent tilgungsplan immobilienwert 0))"

section \<open>tax\_calculator.py\<close>




section \<open>Double-precision arithmetic\<close>

text \<open>
  Python computes \<^verbatim>\<open>x + y\<close>, \<^verbatim>\<open>x - y\<close>, \<^verbatim>\<open>x * y\<close> and \<^verbatim>\<open>x / y\<close> on floats as the exact
  result rounded to the nearest double, ties to the even mantissa. \<open>rne\<close> rounds a real to
  the nearest integer, ties to even; \<open>ilog2 x\<close> is the binary exponent of \<open>x > 0\<close>, the
  integer \<open>e\<close> with \<open>2 powi e \<le> x < 2 powi (e + 1)\<close>, found by doubling and halving;
  \<open>rd\<close> rounds a real to 53 significant bits with them.
  The exponent range of \<open>rd\<close> is unbounded: overflow to infinity, NaN and the reduced
  precision of subnormal results are not modelled. Comparisons, \<^verbatim>\<open>min\<close> and \<^verbatim>\<open>max\<close> are
  exact on doubles.
\<close>

definition rne :: "real \<Rightarrow> int" where
  "rne x = (let f = \<lfloor>x\<rfloor>; d = x - of_int f
            in if d < 1/2 then f else if 1/2 < d then f + 1 else if even f then f else f + 1)"

function ilog2 :: "real \<Rightarrow> int" where
  "ilog2 x = (if x \<le> 0 then 0
              else if x < 1 then ilog2 (2 * x) - 1
              else if 2 \<le> x then ilog2 (x / 2) + 1
              else 0)"
  by pat_completeness auto
termination
proof (relation "measure (\<lambda>x. nat \<bar>\<lfloor>log 2 x\<rfloor>\<bar>)")
  show "wf (measure (\<lambda>x. nat \<bar>\<lfloor>log 2 x\<rfloor>\<bar>))" by simp
next
  fix x :: real
  assume "\<not> x \<le> 0" "x < 1"
  then have x: "0 < x" "log 2 x < 0" by simp_all
  then have A: "\<lfloor>log 2 x\<rfloor> < 0" by linarith
  have "log 2 (2 * x) = 1 + log 2 x"
    using x(1) by (simp add: log_mult)
  then have B: "\<lfloor>log 2 (2 * x)\<rfloor> = \<lfloor>log 2 x\<rfloor> + 1" by simp
  show "(2 * x, x) \<in> measure (\<lambda>x. nat \<bar>\<lfloor>log 2 x\<rfloor>\<bar>)"
    unfolding in_measure B using A by linarith
next
  fix x :: real
  assume "\<not> x \<le> 0" "\<not> x < 1" "2 \<le> x"
  then have x: "0 < x" "1 \<le> log 2 x"
    using log_le_cancel_iff[of 2 2 x] by simp_all
  then have A: "1 \<le> \<lfloor>log 2 x\<rfloor>" by linarith
  have "log 2 (x / 2) = log 2 x - 1"
    using x(1) by (simp add: log_divide)
  then have B: "\<lfloor>log 2 (x / 2)\<rfloor> = \<lfloor>log 2 x\<rfloor> - 1" by simp
  show "(x / 2, x) \<in> measure (\<lambda>x. nat \<bar>\<lfloor>log 2 x\<rfloor>\<bar>)"
    unfolding in_measure B using A by linarith
qed

declare ilog2.simps [simp del]

definition rd :: "real \<Rightarrow> real" where
  "rd x = (if x = 0 then 0
           else let e = ilog2 \<bar>x\<bar>
                in sgn x * (of_int (rne (\<bar>x\<bar> / 2 powi (e - 52))) * 2 powi (e - 52)))"

text \<open>
  The loop of \<^verbatim>\<open>berechne_tilgungsplan\<close> (lines 155 to 171) with the result of every float
  operation passed through the rounding function \<open>rnd\<close>, in the order in which the source
  evaluates them. With \<open>rnd = rd\<close> this is the code on doubles; with \<open>rnd = (\<lambda>x. x)\<close> it is
  \<open>tilgungsplan_loop\<close>.
\<close>

fun tilgungsplan_loop_fl ::
  "(real \<Rightarrow> real) \<Rightarrow> real \<Rightarrow> real \<Rightarrow> int list \<Rightarrow> real \<Rightarrow> real \<Rightarrow> real \<Rightarrow> tilgungsplan_row list" where
  "tilgungsplan_loop_fl rnd zinssatz annuitaet [] restschuld zinsen_kumuliert tilgung_kumuliert = []"
| "tilgungsplan_loop_fl rnd zinssatz annuitaet (jahr # jahre) restschuld zinsen_kumuliert tilgung_kumuliert =
     (if restschuld \<le> 0 then []
      else
        let zinsanteil = rnd (restschuld * zinssatz);
            tilgungsanteil = min (rnd (annuitaet - zinsanteil)) restschuld;
            restschuld' = max 0 (rnd (restschuld - tilgungsanteil));
            zinsen_kumuliert' = rnd (zinsen_kumuliert + zinsanteil);
            tilgung_kumuliert' = rnd (tilgung_kumuliert + tilgungsanteil)
        in \<lparr>Jahr = jahr,
            Zinsanteil = zinsanteil,
            Tilgungsanteil = tilgungsanteil,
            Restschuld = restschuld',
            Zinsen_kumuliert = zinsen_kumuliert',
            Tilgung_kumuliert = tilgung_kumuliert'\<rparr>
           # tilgungsplan_loop_fl rnd zinssatz annuitaet jahre restschuld' zinsen_kumuliert' tilgung_kumuliert')"

text \<open>Line 141, \<^verbatim>\<open>zinssatz = zinssatz_prozent / 100\<close>.\<close>

definition zinssatz_fl :: "(real \<Rightarrow> real) \<Rightarrow> real \<Rightarrow> real" where
  "zinssatz_fl rnd zinssatz_prozent = rnd (zinssatz_prozent / 100)"

text \<open>
  Line 142, \<^verbatim>\<open>annuitaet = darlehensbetrag * (zinssatz_prozent + tilgung_prozent) / 100\<close>:
  the sum, the product and the quotient are rounded in turn.
\<close>

definition annuitaet_fl :: "(real \<Rightarrow> real) \<Rightarrow> real \<Rightarrow> real \<Rightarrow> real \<Rightarrow> real" where
  "annuitaet_fl rnd darlehensbetrag zinssatz_prozent tilgung_prozent =
     rnd (rnd (darlehensbetrag * rnd (zinssatz_prozent + tilgung_prozent)) / 100)"

definition berechne_tilgungsplan_fl ::
  "(real \<Rightarrow> real) \<Rightarrow> real \<Rightarrow> real \<Rightarrow> real \<Rightarrow> int \<Rightarrow> tilgungsplan_row list" where
  "berechne_tilgungsplan_fl rnd darlehensbetrag zinssatz_prozent tilgung_prozent laufzeit_jahre =
     (let zinssatz = zinssatz_fl rnd zinssatz_prozent;
          annuitaet = annuitaet_fl rnd darlehensbetrag zinssatz_prozent tilgung_prozent
      in tilgungsplan_loop_fl rnd zinssatz annuitaet [1..laufzeit_jahre] darlehensbetrag 0 0)"

section \<open>Notions used to state the properties\<close>

text \<open>
  The balance at the start of the year of row \<open>i\<close> of a schedule: the principal for the
  first row, the remaining balance of the row before otherwise.
\<close>

definition anfangsschuld :: "real \<Rightarrow> tilgungsplan_row list \<Rightarrow> nat \<Rightarrow> real" where
  "anfangsschuld darlehensbetrag rows i =
     (if i = 0 then darlehensbetrag else Restschuld (rows ! (i - 1)))"

section \<open>Rounding to double precision\<close>

text \<open>
  \<open>ilog2\<close> is the floor of the binary logarithm. \<open>rd\<close> fixes 0, is monotone and idempotent; \<open>rd_eval\<close>, \<open>rd_eval_neg\<close> and
  \<open>rd_eval_zero\<close> compute it at a given number once its binary exponent is supplied.
\<close>

lemma ilog2_floor_log: "0 < x \<Longrightarrow> ilog2 x = \<lfloor>log 2 x\<rfloor>"
proof (induction x rule: ilog2.induct)
  case (1 x)
  consider "x < 1" | "2 \<le> x" | "1 \<le> x" "x < 2" by linarith
  then show ?case
  proof cases
    case 1
    have "log 2 (2 * x) = 1 + log 2 x"
      using "1.prems" by (simp add: log_mult)
    then have "\<lfloor>log 2 (2 * x)\<rfloor> = \<lfloor>log 2 x\<rfloor> + 1" by simp
    moreover have "ilog2 (2 * x) = \<lfloor>log 2 (2 * x)\<rfloor>"
      using "1.IH"(1) "1.prems" 1 by simp
    ultimately show ?thesis
      using "1.prems" 1 by (subst ilog2.simps) simp
  next
    case 2
    have "log 2 (x / 2) = log 2 x - 1"
      using "1.prems" by (simp add: log_divide)
    then have "\<lfloor>log 2 (x / 2)\<rfloor> = \<lfloor>log 2 x\<rfloor> - 1" by simp
    moreover have "ilog2 (x / 2) = \<lfloor>log 2 (x / 2)\<rfloor>"
      using "1.IH"(2) "1.prems" 2 by simp
    ultimately show ?thesis
      using "1.prems" 2 by (subst ilog2.simps) simp
  next
    case 3
    have "0 \<le> log 2 x" "log 2 x < 1"
      using 3 log_less_cancel_iff[of 2 x 2] by simp_all
    then have "\<lfloor>log 2 x\<rfloor> = 0" by linarith
    then show ?thesis
      using 3 by (subst ilog2.simps) simp
  qed
qed

lemma rd_log:
  "rd x = (if x = 0 then 0
           else let e = \<lfloor>log 2 \<bar>x\<bar>\<rfloor>
                in sgn x * (of_int (rne (\<bar>x\<bar> / 2 powi (e - 52))) * 2 powi (e - 52)))"
  by (simp add: rd_def ilog2_floor_log)





lemma rd_0: "rd 0 = 0"
  by (simp add: rd_def)


lemma floor_log2_eq:
  assumes "0 < x" "2 powi e \<le> x" "x < 2 powi (e + 1)"
  shows "\<lfloor>log 2 x\<rfloor> = e"
proof -
  have p: "2 powr (real_of_int k) = 2 powi k" for k
    by (rule powr_real_of_int') simp_all
  have "real_of_int e + 1 = real_of_int (e + 1)" by simp
  then have "2 powr (real_of_int e + 1) = 2 powi (e + 1)"
    using p[of "e + 1"] by (simp only:)
  with assms p[of e] have "2 powr (real_of_int e) \<le> x \<and> x < 2 powr (real_of_int e + 1)"
    by (simp only:)
  then show ?thesis
    using floor_log_eq_powr_iff[of x 2 e] assms(1) by simp
qed


lemma rd_pos:
  assumes "0 < x" "2 powi e \<le> x" "x < 2 powi (e + 1)"
  shows "rd x = of_int (rne (x / 2 powi (e - 52))) * 2 powi (e - 52)"
  using assms floor_log2_eq[OF assms] by (simp add: rd_log Let_def)


lemma rd_eval:
  assumes "0 < x" "2 powi e \<le> x" "x < 2 powi (e + 1)"
    and "of_int (rne (x / 2 powi (e - 52))) * 2 powi (e - 52) = v"
  shows "rd x = v"
  using rd_pos[OF assms(1-3)] assms(4) by simp











lemma rd_eval_zero: "x = 0 \<Longrightarrow> rd x = 0"
  by (simp add: rd_0)


section \<open>Invariants of the amortization loop\<close>

lemma loop_Cons:
  "0 < rs \<Longrightarrow> tilgungsplan_loop z a (j # js) rs zk tk =
     \<lparr>Jahr = j, Zinsanteil = rs * z, Tilgungsanteil = min (a - rs * z) rs,
      Restschuld = max 0 (rs - min (a - rs * z) rs),
      Zinsen_kumuliert = zk + rs * z, Tilgung_kumuliert = tk + min (a - rs * z) rs\<rparr>
     # tilgungsplan_loop z a js (max 0 (rs - min (a - rs * z) rs)) (zk + rs * z)
         (tk + min (a - rs * z) rs)"
  by (simp add: Let_def)

lemma loop_nonpos: "rs \<le> 0 \<Longrightarrow> tilgungsplan_loop z a js rs zk tk = []"
  by (cases js) simp_all

lemma anfangsschuld_Cons:
  "anfangsschuld rs (row # rest) (Suc k) = anfangsschuld (Restschuld row) rest k"
  by (cases k) (simp_all add: anfangsschuld_def)

text \<open>Exact arithmetic is the loop with the identity as rounding function.\<close>

lemma loop_fl_exact:
  "tilgungsplan_loop_fl (\<lambda>x. x) z a js rs zk tk = tilgungsplan_loop z a js rs zk tk"
  by (induction js arbitrary: rs zk tk) (simp_all add: Let_def)

lemma plan_fl_exact:
  "berechne_tilgungsplan_fl (\<lambda>x. x) darlehensbetrag zinssatz_prozent tilgung_prozent laufzeit_jahre
   = berechne_tilgungsplan darlehensbetrag zinssatz_prozent tilgung_prozent laufzeit_jahre"
  by (simp add: berechne_tilgungsplan_fl_def berechne_tilgungsplan_def zinssatz_fl_def
      annuitaet_fl_def loop_fl_exact)

lemma loop_fl_Cons:
  "0 < rs \<Longrightarrow> tilgungsplan_loop_fl rnd z a (j # js) rs zk tk =
     \<lparr>Jahr = j, Zinsanteil = rnd (rs * z),
      Tilgungsanteil = min (rnd (a - rnd (rs * z))) rs,
      Restschuld = max 0 (rnd (rs - min (rnd (a - rnd (rs * z))) rs)),
      Zinsen_kumuliert = rnd (zk + rnd (rs * z)),
      Tilgung_kumuliert = rnd (tk + min (rnd (a - rnd (rs * z))) rs)\<rparr>
     # tilgungsplan_loop_fl rnd z a js (max 0 (rnd (rs - min (rnd (a - rnd (rs * z))) rs)))
         (rnd (zk + rnd (rs * z))) (rnd (tk + min (rnd (a - rnd (rs * z))) rs))"
  by (simp add: Let_def)

lemma loop_fl_nonpos: "rs \<le> 0 \<Longrightarrow> tilgungsplan_loop_fl rnd z a js rs zk tk = []"
  by (cases js) simp_all



lemma loop_fl_zero_last:
  "i < length (tilgungsplan_loop_fl rnd z a js rs zk tk) \<Longrightarrow>
   Restschuld (tilgungsplan_loop_fl rnd z a js rs zk tk ! i) \<le> 0 \<Longrightarrow>
   Suc i = length (tilgungsplan_loop_fl rnd z a js rs zk tk)"
proof (induction js arbitrary: rs zk tk i)
  case Nil
  then show ?case by simp
next
  case (Cons j js)
  show ?case
  proof (cases "rs \<le> 0")
    case True
    with Cons.prems show ?thesis by simp
  next
    case False
    then have pos: "0 < rs" by simp
    note rows = loop_fl_Cons[OF pos, of rnd z a j js zk tk]
    let ?rs' = "max 0 (rnd (rs - min (rnd (a - rnd (rs * z))) rs))"
    let ?rest = "tilgungsplan_loop_fl rnd z a js ?rs' (rnd (zk + rnd (rs * z)))
                   (rnd (tk + min (rnd (a - rnd (rs * z))) rs))"
    show ?thesis
    proof (cases i)
      case 0
      with Cons.prems have "?rs' \<le> 0" unfolding rows by simp
      then have "?rest = []" by (rule loop_fl_nonpos)
      with 0 show ?thesis unfolding rows by simp
    next
      case (Suc k)
      with Cons.prems have "k < length ?rest" "Restschuld (?rest ! k) \<le> 0"
        unfolding rows by simp_all
      then have "Suc k = length ?rest" by (rule Cons.IH)
      with Suc show ?thesis unfolding rows by simp
    qed
  qed
qed


lemma loop_fl_row:
  "i < length (tilgungsplan_loop_fl rnd z a js rs zk tk) \<Longrightarrow>
   0 < anfangsschuld rs (tilgungsplan_loop_fl rnd z a js rs zk tk) i \<and>
   Zinsanteil (tilgungsplan_loop_fl rnd z a js rs zk tk ! i)
     = rnd (anfangsschuld rs (tilgungsplan_loop_fl rnd z a js rs zk tk) i * z) \<and>
   Tilgungsanteil (tilgungsplan_loop_fl rnd z a js rs zk tk ! i)
     = min (rnd (a - Zinsanteil (tilgungsplan_loop_fl rnd z a js rs zk tk ! i)))
           (anfangsschuld rs (tilgungsplan_loop_fl rnd z a js rs zk tk) i) \<and>
   Restschuld (tilgungsplan_loop_fl rnd z a js rs zk tk ! i)
     = max 0 (rnd (anfangsschuld rs (tilgungsplan_loop_fl rnd z a js rs zk tk) i
                   - Tilgungsanteil (tilgungsplan_loop_fl rnd z a js rs zk tk ! i)))"
proof (induction js arbitrary: rs zk tk i)
  case Nil
  then show ?case by simp
next
  case (Cons j js)
  show ?case
  proof (cases "rs \<le> 0")
    case True
    with Cons.prems show ?thesis by simp
  next
    case False
    then have pos: "0 < rs" by simp
    note rows = loop_fl_Cons[OF pos, of rnd z a j js zk tk]
    show ?thesis
    proof (cases i)
      case 0
      with pos show ?thesis
        unfolding rows by (simp add: anfangsschuld_def)
    next
      case (Suc k)
      with Cons.prems have "k < length (tilgungsplan_loop_fl rnd z a js
          (max 0 (rnd (rs - min (rnd (a - rnd (rs * z))) rs)))
          (rnd (zk + rnd (rs * z))) (rnd (tk + min (rnd (a - rnd (rs * z))) rs)))"
        unfolding rows by simp
      from Cons.IH[OF this] Suc show ?thesis
        unfolding rows by (simp add: anfangsschuld_Cons)
    qed
  qed
qed

text \<open>A row that is not the last one is not clamped.\<close>

lemma loop_fl_unclamped:
  assumes "rnd 0 = 0" "Suc i < length (tilgungsplan_loop_fl rnd z a js rs zk tk)"
  shows "Tilgungsanteil (tilgungsplan_loop_fl rnd z a js rs zk tk ! i)
           = rnd (a - Zinsanteil (tilgungsplan_loop_fl rnd z a js rs zk tk ! i))"
    and "Tilgungsanteil (tilgungsplan_loop_fl rnd z a js rs zk tk ! i)
           < anfangsschuld rs (tilgungsplan_loop_fl rnd z a js rs zk tk) i"
proof -
  let ?rows = "tilgungsplan_loop_fl rnd z a js rs zk tk"
  let ?b = "anfangsschuld rs ?rows i"
  let ?T = "Tilgungsanteil (?rows ! i)"
  let ?x = "rnd (a - Zinsanteil (?rows ! i))"
  from assms(2) have i: "i < length ?rows" by simp
  note r = loop_fl_row[OF i]
  have ne: "?T \<noteq> ?b"
  proof
    assume "?T = ?b"
    with r assms(1) have "Restschuld (?rows ! i) \<le> 0" by simp
    from loop_fl_zero_last[OF i this] assms(2) show False by simp
  qed
  from r have T: "?T = min ?x ?b" by simp
  with ne show "?T = ?x" by (simp add: min_def split: if_splits)
  from T ne show "?T < ?b" by (simp add: min_def split: if_splits)
qed



section \<open>Concrete schedules\<close>

text \<open>A loan that is still running at the end of its term: 100000 at 4 percent, 2 percent
  initial amortization, one year.\<close>

lemma plan_one_year:
  "berechne_tilgungsplan 100000 4 2 1 =
     [\<lparr>Jahr = 1, Zinsanteil = 4000, Tilgungsanteil = 2000, Restschuld = 98000,
        Zinsen_kumuliert = 4000, Tilgung_kumuliert = 2000\<rparr>]"
  by (simp add: berechne_tilgungsplan_def Let_def upto_rec1)

text \<open>
  On doubles: a loan that is paid off in the second of three years, the last payment being
  clamped to the balance: 1000 at 10 percent, 50 percent initial amortization. The rate
  10 / 100 is the double next to 0.1.
\<close>

lemma plan_fl_payoff:
  "berechne_tilgungsplan_fl rd 1000 10 50 3 =
     [\<lparr>Jahr = 1, Zinsanteil = 100, Tilgungsanteil = 500,
        Restschuld = 500,
        Zinsen_kumuliert = 100,
        Tilgung_kumuliert = 500\<rparr>,
      \<lparr>Jahr = 2, Zinsanteil = 50, Tilgungsanteil = 500,
        Restschuld = 0,
        Zinsen_kumuliert = 150,
        Tilgung_kumuliert = 1000\<rparr>]"
  "zinssatz_fl rd 10 = (3602879701896397 / 36028797018963968)"
  "annuitaet_fl rd 1000 10 50 = 600"
proof -
  have v1: "rd (10 / 100) = (3602879701896397 / 36028797018963968)"
    by (rule rd_eval[where e = "-4"]) (simp_all add: rne_def)
  have v2: "rd (10 + 50) = 60"
    by (rule rd_eval[where e = "5"]) (simp_all add: rne_def)
  have v3: "rd (1000 * 60) = 60000"
    by (rule rd_eval[where e = "15"]) (simp_all add: rne_def)
  have v4: "rd (60000 / 100) = 600"
    by (rule rd_eval[where e = "9"]) (simp_all add: rne_def)
  have v5: "rd (1000 * (3602879701896397 / 36028797018963968)) = 100"
    by (rule rd_eval[where e = "6"]) (simp_all add: rne_def)
  have v6: "rd (600 - 100) = 500"
    by (rule rd_eval[where e = "8"]) (simp_all add: rne_def)
  have m7: "min (500::real) 1000 = 500"
    by simp
  have v8: "rd (1000 - 500) = 500"
    by (rule rd_eval[where e = "8"]) (simp_all add: rne_def)
  have m9: "max (0::real) 500 = 500"
    by simp
  have v10: "rd (0 + 100) = 100"
    by (rule rd_eval[where e = "6"]) (simp_all add: rne_def)
  have v11: "rd (0 + 500) = 500"
    by (rule rd_eval[where e = "8"]) (simp_all add: rne_def)
  have v12: "rd (500 * (3602879701896397 / 36028797018963968)) = 50"
    by (rule rd_eval[where e = "5"]) (simp_all add: rne_def)
  have v13: "rd (600 - 50) = 550"
    by (rule rd_eval[where e = "9"]) (simp_all add: rne_def)
  have m14: "min (550::real) 500 = 500"
    by simp
  have v15: "rd (500 - 500) = 0"
    by (rule rd_eval_zero) simp
  have m16: "max (0::real) 0 = 0"
    by simp
  have v17: "rd (100 + 50) = 150"
    by (rule rd_eval[where e = "7"]) (simp_all add: rne_def)
  have v18: "rd (500 + 500) = 1000"
    by (rule rd_eval[where e = "9"]) (simp_all add: rne_def)
  have z: "zinssatz_fl rd 10 = (3602879701896397 / 36028797018963968)"
    unfolding zinssatz_fl_def by (rule v1)
  have a: "annuitaet_fl rd 1000 10 50 = 600"
    unfolding annuitaet_fl_def v2 v3 by (rule v4)
  have years: "[1..3::int] = [1, 2, 3]"
    by (simp add: upto_rec1)
  have p1: "0 < (1000::real)" by simp
  have r1: "tilgungsplan_loop_fl rd (3602879701896397 / 36028797018963968) 600 (1 # [2, 3]) 1000 0 0
      =
      \<lparr>Jahr = 1, Zinsanteil = 100, Tilgungsanteil = 500,
        Restschuld = 500,
        Zinsen_kumuliert = 100,
        Tilgung_kumuliert = 500\<rparr>
      # tilgungsplan_loop_fl rd (3602879701896397 / 36028797018963968) 600 ([2, 3]) 500 100 500"
    unfolding loop_fl_Cons[where rnd = rd and z = "(3602879701896397 / 36028797018963968)" and a =
        "600"
        and j = 1 and js = "[2, 3]" and rs = "1000"
        and zk = "0" and tk = "0", OF p1]
      v5 v6 m7 v8 m9 v10 v11
    by (rule refl)
  have p2: "0 < (500::real)" by simp
  have r2: "tilgungsplan_loop_fl rd (3602879701896397 / 36028797018963968) 600 (2 # [3]) 500 100 500
      =
      \<lparr>Jahr = 2, Zinsanteil = 50, Tilgungsanteil = 500,
        Restschuld = 0,
        Zinsen_kumuliert = 150,
        Tilgung_kumuliert = 1000\<rparr>
      # tilgungsplan_loop_fl rd (3602879701896397 / 36028797018963968) 600 ([3]) 0 150 1000"
    unfolding loop_fl_Cons[where rnd = rd and z = "(3602879701896397 / 36028797018963968)" and a =
        "600"
        and j = 2 and js = "[3]" and rs = "500"
        and zk = "100" and tk = "500", OF p2]
      v12 v13 m14 v15 m16 v17 v18
    by (rule refl)
  have e: "tilgungsplan_loop_fl rd (3602879701896397 / 36028797018963968) 600 ([3]) 0 150 1000 = []"
    by (rule loop_fl_nonpos) simp
  show "berechne_tilgungsplan_fl rd 1000 10 50 3 =
     [\<lparr>Jahr = 1, Zinsanteil = 100, Tilgungsanteil = 500,
        Restschuld = 500,
        Zinsen_kumuliert = 100,
        Tilgung_kumuliert = 500\<rparr>,
      \<lparr>Jahr = 2, Zinsanteil = 50, Tilgungsanteil = 500,
        Restschuld = 0,
        Zinsen_kumuliert = 150,
        Tilgung_kumuliert = 1000\<rparr>]"
    unfolding berechne_tilgungsplan_fl_def Let_def z a years r1 r2 e by (rule refl)
  show "zinssatz_fl rd 10 = (3602879701896397 / 36028797018963968)" by (rule z)
  show "annuitaet_fl rd 1000 10 50 = 600" by (rule a)
qed

text \<open>
  On doubles the scenario of C7 has the same annual payment and the same first row as in
  exact arithmetic, and a term of 0 or a principal of 0 gives the empty schedule for every
  rounding function.
\<close>

lemma plan_fl_scenario:
  "annuitaet_fl rd 240000 3.5 2.0 = 13200"
  "map (\<lambda>r. (Jahr r, Zinsanteil r, Tilgungsanteil r, Restschuld r))
     (take 1 (berechne_tilgungsplan_fl rd 240000 3.5 2.0 30))
   = [(1, 8400, 4800, 235200)]"
proof -
  have v1: "rd (3.5 / 100) = (1261007895663739 / 36028797018963968)"
    by (rule rd_eval[where e = "-5"]) (simp_all add: rne_def)
  have v2: "rd (3.5 + 2.0) = (11 / 2)"
    by (rule rd_eval[where e = "2"]) (simp_all add: rne_def)
  have v3: "rd (240000 * (11 / 2)) = 1320000"
    by (rule rd_eval[where e = "20"]) (simp_all add: rne_def)
  have v4: "rd (1320000 / 100) = 13200"
    by (rule rd_eval[where e = "13"]) (simp_all add: rne_def)
  have v5: "rd (240000 * (1261007895663739 / 36028797018963968)) = 8400"
    by (rule rd_eval[where e = "13"]) (simp_all add: rne_def)
  have v6: "rd (13200 - 8400) = 4800"
    by (rule rd_eval[where e = "12"]) (simp_all add: rne_def)
  have m7: "min (4800::real) 240000 = 4800"
    by simp
  have v8: "rd (240000 - 4800) = 235200"
    by (rule rd_eval[where e = "17"]) (simp_all add: rne_def)
  have m9: "max (0::real) 235200 = 235200"
    by simp
  have z: "zinssatz_fl rd 3.5 = (1261007895663739 / 36028797018963968)"
    unfolding zinssatz_fl_def by (rule v1)
  have a: "annuitaet_fl rd 240000 3.5 2.0 = 13200"
    unfolding annuitaet_fl_def v2 v3 by (rule v4)
  obtain js where years: "[1..30::int] = 1 # 2 # js"
    by (simp add: upto_rec1)
  have p1: "0 < (240000::real)" by simp
  have r1: "tilgungsplan_loop_fl rd (1261007895663739 / 36028797018963968) 13200 (1 # 2 # js) 240000
      0 0 =
      \<lparr>Jahr = 1, Zinsanteil = 8400, Tilgungsanteil = 4800,
        Restschuld = 235200,
        Zinsen_kumuliert = rd (0 + 8400),
        Tilgung_kumuliert = rd (0 + 4800)\<rparr>
      # tilgungsplan_loop_fl rd (1261007895663739 / 36028797018963968) 13200 (2 # js) 235200 (rd (0
          + 8400)) (rd (0 + 4800))"
    unfolding loop_fl_Cons[where rnd = rd and z = "(1261007895663739 / 36028797018963968)" and a =
        "13200"
        and j = 1 and js = "2 # js" and rs = "240000"
        and zk = "0" and tk = "0", OF p1]
      v5 v6 m7 v8 m9
    by (rule refl)
  have plan: "berechne_tilgungsplan_fl rd 240000 3.5 2.0 30 =
      \<lparr>Jahr = 1, Zinsanteil = 8400, Tilgungsanteil = 4800,
        Restschuld = 235200,
        Zinsen_kumuliert = rd (0 + 8400),
        Tilgung_kumuliert = rd (0 + 4800)\<rparr>
      # tilgungsplan_loop_fl rd (1261007895663739 / 36028797018963968) 13200 (2 # js) 235200 (rd (0
          + 8400)) (rd (0 + 4800))"
    unfolding berechne_tilgungsplan_fl_def Let_def z a years r1 by (rule refl)
  show "annuitaet_fl rd 240000 3.5 2.0 = 13200" by (rule a)
  show "map (\<lambda>r. (Jahr r, Zinsanteil r, Tilgungsanteil r, Restschuld r))
     (take 1 (berechne_tilgungsplan_fl rd 240000 3.5 2.0 30))
   = [(1, 8400, 4800, 235200)]"
    unfolding plan by simp
qed

lemma plan_fl_empty:
  "berechne_tilgungsplan_fl rnd darlehensbetrag zinssatz_prozent tilgung_prozent 0 = []"
  "berechne_tilgungsplan_fl rnd 0 zinssatz_prozent tilgung_prozent laufzeit_jahre = []"
  by (simp_all add: berechne_tilgungsplan_fl_def loop_fl_nonpos)

section \<open>The wealth projection\<close>

lemma vermoegen_loop_length:
  "length (vermoegen_loop cf w rows iw cfk) = length rows"
  by (induction rows arbitrary: iw cfk) (simp_all add: Let_def)

text \<open>The appreciation factor is applied once per row, the first row included.\<close>

lemma vermoegen_loop_wert:
  "i < length rows \<Longrightarrow>
   Immobilienwert (vermoegen_loop cf w rows iw cfk ! i) = iw * (1 + w / 100) ^ Suc i"
proof (induction rows arbitrary: iw cfk i)
  case Nil
  then show ?case by simp
next
  case (Cons row rows)
  show ?case
  proof (cases i)
    case 0
    then show ?thesis by (simp add: Let_def)
  next
    case (Suc k)
    with Cons.prems have "k < length rows" by simp
    from Cons.IH[OF this] Suc show ?thesis
      by (simp add: Let_def mult.assoc)
  qed
qed

lemma startwert_Cons:
  "startwert eigenkapital (row # rows) kaufpreis =
     Inr (if kaufpreis > 0 then kaufpreis
          else Restschuld row + Tilgung_kumuliert row - Tilgungsanteil row + eigenkapital)"
  by (simp add: startwert_def iloc0_def Let_def)

text \<open>
  In the first row of a schedule of \<^verbatim>\<open>berechne_tilgungsplan\<close> the cumulated principal is
  the principal portion of that row, so that the local \<^verbatim>\<open>darlehensbetrag\<close> of
  \<^verbatim>\<open>berechne_vermoegensaufbau\<close> is the balance after the first year.
\<close>

lemma plan_first_row:
  assumes "berechne_tilgungsplan darlehensbetrag zinssatz_prozent tilgung_prozent laufzeit_jahre
           = row # rows"
  shows "Tilgung_kumuliert row = Tilgungsanteil row"
    and "Restschuld row + Tilgung_kumuliert row - Tilgungsanteil row = Restschuld row"
proof -
  let ?z = "zinssatz_prozent / 100"
  let ?a = "darlehensbetrag * (zinssatz_prozent + tilgung_prozent) / 100"
  from assms have rows: "tilgungsplan_loop ?z ?a [1..laufzeit_jahre] darlehensbetrag 0 0 = row # rows"
    by (simp add: berechne_tilgungsplan_def Let_def)
  then obtain j js where js: "[1..laufzeit_jahre] = j # js"
    by (cases "[1..laufzeit_jahre]") simp_all
  from rows js have pos: "0 < darlehensbetrag"
    by (cases "darlehensbetrag \<le> 0") simp_all
  from rows show "Tilgung_kumuliert row = Tilgungsanteil row"
    unfolding js loop_Cons[OF pos] by auto
  then show "Restschuld row + Tilgung_kumuliert row - Tilgungsanteil row = Restschuld row"
    by simp
qed

lemma vermoegensaufbau_Cons:
  "berechne_vermoegensaufbau eigenkapital (row # rows) cashflow_jaehrlich wertsteigerung_prozent
       kaufpreis =
     Inr (vermoegen_loop cashflow_jaehrlich wertsteigerung_prozent (row # rows)
            (if kaufpreis > 0 then kaufpreis
             else Restschuld row + Tilgung_kumuliert row - Tilgungsanteil row + eigenkapital) 0)"
  by (simp add: berechne_vermoegensaufbau_def startwert_Cons)

section \<open>Properties\<close>

subsection \<open>Amortization schedule\<close>







text \<open>
  The statement of C10 as written, "interest portion + principal portion = annuity in every
  row but the last", fails on doubles: for a loan of 69070 at 2.5 percent with 3 percent
  initial amortization and a term of 20 years the annuity is 3798.85, and the second of the
  rows has the interest portion 1674.9475 and the principal portion 2123.9025, which add up
  to 3798.8500000000004 when rounded and do not add up to the annuity exactly either.
\<close>

theorem C10_counterexample:
  "Suc 1 < length (berechne_tilgungsplan_fl rd 69070 2.5 3 20)
   \<and> annuitaet_fl rd 69070 2.5 3 = (8353759494353715 / 2199023255552)
   \<and> Zinsanteil (berechne_tilgungsplan_fl rd 69070 2.5 3 20 ! 1) =
       (7366497008657367 / 4398046511104)
   \<and> Tilgungsanteil (berechne_tilgungsplan_fl rd 69070 2.5 3 20 ! 1) =
       (583813873753129 / 274877906944)
   \<and> Zinsanteil (berechne_tilgungsplan_fl rd 69070 2.5 3 20 ! 1)
       + Tilgungsanteil (berechne_tilgungsplan_fl rd 69070 2.5 3 20 ! 1) \<noteq> annuitaet_fl rd
           69070 2.5 3
   \<and> rd (Zinsanteil (berechne_tilgungsplan_fl rd 69070 2.5 3 20 ! 1)
           + Tilgungsanteil (berechne_tilgungsplan_fl rd 69070 2.5 3 20 ! 1)) =
               (2088439873588429 / 549755813888)
   \<and> rd (Zinsanteil (berechne_tilgungsplan_fl rd 69070 2.5 3 20 ! 1)
           + Tilgungsanteil (berechne_tilgungsplan_fl rd 69070 2.5 3 20 ! 1)) \<noteq> annuitaet_fl
               rd 69070 2.5 3"
proof -
  have v1: "rd (2.5 / 100) = (3602879701896397 / 144115188075855872)"
    by (rule rd_eval[where e = "-6"]) (simp_all add: rne_def)
  have v2: "rd (2.5 + 3) = (11 / 2)"
    by (rule rd_eval[where e = "2"]) (simp_all add: rne_def)
  have v3: "rd (69070 * (11 / 2)) = 379885"
    by (rule rd_eval[where e = "18"]) (simp_all add: rne_def)
  have v4: "rd (379885 / 100) = (8353759494353715 / 2199023255552)"
    by (rule rd_eval[where e = "11"]) (simp_all add: rne_def)
  have v5: "rd (69070 * (3602879701896397 / 144115188075855872)) = (6907 / 4)"
    by (rule rd_eval[where e = "10"]) (simp_all add: rne_def)
  have v6: "rd ((8353759494353715 / 2199023255552) - (6907 / 4)) =
      (4556596087829299 / 2199023255552)"
    by (rule rd_eval[where e = "11"]) (simp_all add: rne_def)
  have m7: "min ((4556596087829299 / 2199023255552)::real) 69070 =
      (4556596087829299 / 2199023255552)"
    by simp
  have v8: "rd (69070 - (4556596087829299 / 2199023255552)) = (2302030315205427 / 34359738368)"
    by (rule rd_eval[where e = "16"]) (simp_all add: rne_def)
  have m9: "max (0::real) (2302030315205427 / 34359738368) = (2302030315205427 / 34359738368)"
    by simp
  have v10: "rd ((2302030315205427 / 34359738368) * (3602879701896397 / 144115188075855872)) =
      (7366497008657367 / 4398046511104)"
    by (rule rd_eval[where e = "10"]) (simp_all add: rne_def)
  have v11: "rd ((8353759494353715 / 2199023255552) - (7366497008657367 / 4398046511104)) =
      (583813873753129 / 274877906944)"
    by (rule rd_eval[where e = "11"]) (simp_all add: rne_def)
  have m12: "min ((583813873753129 / 274877906944)::real) (2302030315205427 / 34359738368) =
      (583813873753129 / 274877906944)"
    by simp
  have v13: "rd ((2302030315205427 / 34359738368) - (583813873753129 / 274877906944)) =
      (1114526790493143 / 17179869184)"
    by (rule rd_eval[where e = "15"]) (simp_all add: rne_def)
  have m14: "max (0::real) (1114526790493143 / 17179869184) = (1114526790493143 / 17179869184)"
    by simp
  have v15: "rd ((7366497008657367 / 4398046511104) + (583813873753129 / 274877906944)) =
      (2088439873588429 / 549755813888)"
    by (rule rd_eval[where e = "11"]) (simp_all add: rne_def)
  have z: "zinssatz_fl rd 2.5 = (3602879701896397 / 144115188075855872)"
    unfolding zinssatz_fl_def by (rule v1)
  have a: "annuitaet_fl rd 69070 2.5 3 = (8353759494353715 / 2199023255552)"
    unfolding annuitaet_fl_def v2 v3 by (rule v4)
  obtain js where years: "[1..20::int] = 1 # 2 # 3 # js"
    by (simp add: upto_rec1)
  have p1: "0 < (69070::real)" by simp
  have r1: "tilgungsplan_loop_fl rd (3602879701896397 / 144115188075855872)
      (8353759494353715 / 2199023255552) (1 # 2 # 3 # js) 69070 0 0 =
      \<lparr>Jahr = 1, Zinsanteil = (6907 / 4), Tilgungsanteil =
          (4556596087829299 / 2199023255552),
        Restschuld = (2302030315205427 / 34359738368),
        Zinsen_kumuliert = rd (0 + (6907 / 4)),
        Tilgung_kumuliert = rd (0 + (4556596087829299 / 2199023255552))\<rparr>
      # tilgungsplan_loop_fl rd (3602879701896397 / 144115188075855872)
          (8353759494353715 / 2199023255552) (2 # 3 # js) (2302030315205427 / 34359738368) (rd (0 +
          (6907 / 4))) (rd (0 + (4556596087829299 / 2199023255552)))"
    unfolding loop_fl_Cons[where rnd = rd and z = "(3602879701896397 / 144115188075855872)" and a =
        "(8353759494353715 / 2199023255552)"
        and j = 1 and js = "2 # 3 # js" and rs = "69070"
        and zk = "0" and tk = "0", OF p1]
      v5 v6 m7 v8 m9
    by (rule refl)
  have p2: "0 < ((2302030315205427 / 34359738368)::real)" by simp
  have r2: "tilgungsplan_loop_fl rd (3602879701896397 / 144115188075855872)
      (8353759494353715 / 2199023255552) (2 # 3 # js) (2302030315205427 / 34359738368) (rd (0 +
      (6907 / 4))) (rd (0 + (4556596087829299 / 2199023255552))) =
      \<lparr>Jahr = 2, Zinsanteil = (7366497008657367 / 4398046511104), Tilgungsanteil =
          (583813873753129 / 274877906944),
        Restschuld = (1114526790493143 / 17179869184),
        Zinsen_kumuliert = rd (rd (0 + (6907 / 4)) + (7366497008657367 / 4398046511104)),
        Tilgung_kumuliert = rd (rd (0 + (4556596087829299 / 2199023255552)) +
            (583813873753129 / 274877906944))\<rparr>
      # tilgungsplan_loop_fl rd (3602879701896397 / 144115188075855872)
          (8353759494353715 / 2199023255552) (3 # js) (1114526790493143 / 17179869184) (rd (rd (0 +
          (6907 / 4)) + (7366497008657367 / 4398046511104))) (rd (rd (0 +
          (4556596087829299 / 2199023255552)) + (583813873753129 / 274877906944)))"
    unfolding loop_fl_Cons[where rnd = rd and z = "(3602879701896397 / 144115188075855872)" and a =
        "(8353759494353715 / 2199023255552)"
        and j = 2 and js = "3 # js" and rs = "(2302030315205427 / 34359738368)"
        and zk = "rd (0 + (6907 / 4))" and tk = "rd (0 + (4556596087829299 / 2199023255552))", OF
            p2]
      v10 v11 m12 v13 m14
    by (rule refl)
  have plan: "berechne_tilgungsplan_fl rd 69070 2.5 3 20 =
      \<lparr>Jahr = 1, Zinsanteil = (6907 / 4), Tilgungsanteil =
          (4556596087829299 / 2199023255552),
        Restschuld = (2302030315205427 / 34359738368),
        Zinsen_kumuliert = rd (0 + (6907 / 4)),
        Tilgung_kumuliert = rd (0 + (4556596087829299 / 2199023255552))\<rparr>
      # \<lparr>Jahr = 2, Zinsanteil = (7366497008657367 / 4398046511104), Tilgungsanteil =
          (583813873753129 / 274877906944),
        Restschuld = (1114526790493143 / 17179869184),
        Zinsen_kumuliert = rd (rd (0 + (6907 / 4)) + (7366497008657367 / 4398046511104)),
        Tilgung_kumuliert = rd (rd (0 + (4556596087829299 / 2199023255552)) +
            (583813873753129 / 274877906944))\<rparr>
      # tilgungsplan_loop_fl rd (3602879701896397 / 144115188075855872)
          (8353759494353715 / 2199023255552) (3 # js) (1114526790493143 / 17179869184) (rd (rd (0 +
          (6907 / 4)) + (7366497008657367 / 4398046511104))) (rd (rd (0 +
          (4556596087829299 / 2199023255552)) + (583813873753129 / 274877906944)))"
    unfolding berechne_tilgungsplan_fl_def Let_def z a years r1 r2 by (rule refl)
  have ne: "tilgungsplan_loop_fl rd (3602879701896397 / 144115188075855872)
      (8353759494353715 / 2199023255552) (3 # js) (1114526790493143 / 17179869184) (rd (rd (0 +
      (6907 / 4)) + (7366497008657367 / 4398046511104))) (rd (rd (0 +
      (4556596087829299 / 2199023255552)) + (583813873753129 / 274877906944))) \<noteq> []"
    by (simp add: Let_def)
  have len: "Suc 1 < length (berechne_tilgungsplan_fl rd 69070 2.5 3 20)"
    unfolding plan using ne by (simp add: Suc_le_eq)
  have Z: "Zinsanteil (berechne_tilgungsplan_fl rd 69070 2.5 3 20 ! 1) =
      (7366497008657367 / 4398046511104)"
    unfolding plan by simp
  have T: "Tilgungsanteil (berechne_tilgungsplan_fl rd 69070 2.5 3 20 ! 1) =
      (583813873753129 / 274877906944)"
    unfolding plan by simp
  show ?thesis
    unfolding Z T v15 a using len by simp
qed

text \<open>
  C10, amended. In every row of the schedule produced by \<^verbatim>\<open>berechne_tilgungsplan\<close> except
  possibly the last, the principal portion is not clamped: it is the annuity minus the
  interest portion as line 160 computes it (one rounded subtraction) and lies below the
  balance at the start of the year. In no row is the principal portion larger than that
  difference; only the final row may be clamped to the balance. Interest portion plus
  principal portion equals the annuity up to the rounding of that subtraction, exactly so
  in exact arithmetic. This holds for every rounding function that fixes 0, hence on
  doubles and in exact arithmetic, and for every input.
\<close>

theorem C10_constant_payment:
  assumes "rnd 0 = 0"
    and "i < length (berechne_tilgungsplan_fl rnd darlehensbetrag zinssatz_prozent tilgung_prozent
                       laufzeit_jahre)"
  shows "let rows = berechne_tilgungsplan_fl rnd darlehensbetrag zinssatz_prozent tilgung_prozent
                      laufzeit_jahre;
             annuitaet = annuitaet_fl rnd darlehensbetrag zinssatz_prozent tilgung_prozent
         in \<not> rnd (annuitaet - Zinsanteil (rows ! i)) < Tilgungsanteil (rows ! i)
          \<and> (Suc i < length rows \<longrightarrow>
               Tilgungsanteil (rows ! i) = rnd (annuitaet - Zinsanteil (rows ! i))
             \<and> Tilgungsanteil (rows ! i) < anfangsschuld darlehensbetrag rows i)"
proof -
  let ?z = "zinssatz_fl rnd zinssatz_prozent"
  let ?a = "annuitaet_fl rnd darlehensbetrag zinssatz_prozent tilgung_prozent"
  let ?rows = "tilgungsplan_loop_fl rnd ?z ?a [1..laufzeit_jahre] darlehensbetrag 0 0"
  have i: "i < length ?rows"
    using assms(2) by (simp add: berechne_tilgungsplan_fl_def Let_def)
  from loop_fl_row[OF i]
  have tilg: "Tilgungsanteil (?rows ! i)
      = min (rnd (?a - Zinsanteil (?rows ! i))) (anfangsschuld darlehensbetrag ?rows i)"
    by simp
  have 1: "\<not> rnd (?a - Zinsanteil (?rows ! i)) < Tilgungsanteil (?rows ! i)"
    by (subst tilg) simp
  have 2: "Suc i < length ?rows \<longrightarrow>
        Tilgungsanteil (?rows ! i) = rnd (?a - Zinsanteil (?rows ! i))
      \<and> Tilgungsanteil (?rows ! i) < anfangsschuld darlehensbetrag ?rows i"
    using loop_fl_unclamped[where rnd = rnd and i = i and z = ?z and a = ?a
        and js = "[1..laufzeit_jahre]" and rs = darlehensbetrag and zk = 0 and tk = 0, OF assms(1)]
    by blast
  from 1 2 show ?thesis
    unfolding berechne_tilgungsplan_fl_def Let_def by blast
qed

text \<open>On doubles, the first row of \<open>plan_fl_payoff\<close>: not clamped, 500 = 600 - 100.\<close>

theorem C10_constant_payment_witness:
  "rd 0 = 0
   \<and> Suc 0 < length (berechne_tilgungsplan_fl rd 1000 10 50 3)
   \<and> annuitaet_fl rd 1000 10 50 = 600
   \<and> Zinsanteil (berechne_tilgungsplan_fl rd 1000 10 50 3 ! 0) = 100
   \<and> Tilgungsanteil (berechne_tilgungsplan_fl rd 1000 10 50 3 ! 0) = 500
   \<and> Tilgungsanteil (berechne_tilgungsplan_fl rd 1000 10 50 3 ! 0)
       < anfangsschuld 1000 (berechne_tilgungsplan_fl rd 1000 10 50 3) 0"
  using C10_constant_payment[of rd 0 1000 10 50 3, OF rd_0]
  by (simp add: plan_fl_payoff rd_0 anfangsschuld_def Let_def)

text \<open>
  C7. For principal 240000, rate 3.5 percent, amortization 2.0 percent and term 30,
  \<^verbatim>\<open>berechne_annuitaet\<close> returns the annual payment 13200, and the first row of
  \<^verbatim>\<open>berechne_tilgungsplan\<close> has interest portion 8400, principal portion 4800 and
  remaining balance 235200.
\<close>

theorem C7_scenario:
  "fe_jaehrliche_rate (berechne_annuitaet 240000 3.5 2.0 30) = 13200
   \<and> map (\<lambda>r. (Jahr r, Zinsanteil r, Tilgungsanteil r, Restschuld r))
         (take 1 (berechne_tilgungsplan 240000 3.5 2.0 30))
     = [(1, 8400, 4800, 235200)]"
proof -
  obtain jahre where u: "[1..30::int] = 1 # jahre"
    by (simp add: upto_rec1)
  have "fe_jaehrliche_rate (berechne_annuitaet 240000 3.5 2.0 30) = 13200"
    by (simp add: berechne_annuitaet_def Let_def)
  moreover have "map (\<lambda>r. (Jahr r, Zinsanteil r, Tilgungsanteil r, Restschuld r))
         (take 1 (berechne_tilgungsplan 240000 3.5 2.0 30))
     = [(1, 8400, 4800, 235200)]"
    unfolding berechne_tilgungsplan_def u by (simp add: Let_def)
  ultimately show ?thesis by simp
qed

subsection \<open>Financing summary\<close>

text \<open>
  C4. \<^verbatim>\<open>berechne_annuitaet\<close> returns annual payment = principal times
  (rate + amortization) / 100; total cost = annual payment times term, floored at the
  principal, hence \<ge> principal; total interest = total cost - principal floored at 0
  (for the raw and for the floored total cost alike), hence \<ge> 0. This holds for every
  input, in particular for principal > 0, rate \<ge> 0, amortization rate > 0 and term > 0.
\<close>

theorem C4_annuitaet_totals:
  "let e = berechne_annuitaet darlehensbetrag zinssatz_prozent tilgung_prozent laufzeit_jahre;
       jaehrliche_rate = darlehensbetrag * (zinssatz_prozent + tilgung_prozent) / 100
   in fe_jaehrliche_rate e = jaehrliche_rate
    \<and> fe_gesamtkosten e = max (jaehrliche_rate * real_of_int laufzeit_jahre) darlehensbetrag
    \<and> darlehensbetrag \<le> fe_gesamtkosten e
    \<and> fe_zinsen_gesamt e = max (jaehrliche_rate * real_of_int laufzeit_jahre - darlehensbetrag) 0
    \<and> fe_zinsen_gesamt e = max (fe_gesamtkosten e - darlehensbetrag) 0
    \<and> 0 \<le> fe_zinsen_gesamt e"
  by (simp add: berechne_annuitaet_def Let_def max_def)

subsection \<open>Wealth projection\<close>

text \<open>
  C3 at a concrete call: the schedule of \<open>plan_one_year\<close> (principal 100000), equity 20000,
  cash flow 0 and the defaults \<^verbatim>\<open>wertsteigerung_prozent = 1.0\<close>, \<^verbatim>\<open>kaufpreis = 0.0\<close>.
  The value before compounding is 98000 + 20000, the balance after the first year plus
  the equity, not the principal plus the equity: the first row holds 119180, not 121200.
\<close>

theorem C3_startwert_evaluated:
  "berechne_vermoegensaufbau 20000 (berechne_tilgungsplan 100000 4 2 1) 0 1.0 0.0 =
     Inr [\<lparr>v_Jahr = 1, Immobilienwert = 119180, v_Restschuld = 98000,
            Nettovermoegen = 21180, Cashflow_kumuliert = 0, Gesamtvermoegen = 21180\<rparr>]
   \<and> (119180::real) \<noteq> (100000 + 20000) * (1 + 1.0 / 100)"
  by (simp add: berechne_vermoegensaufbau_def plan_one_year startwert_Cons Let_def)

text \<open>
  C8. With an empty amortization schedule \<^verbatim>\<open>berechne_vermoegensaufbau\<close> returns the empty
  projection and raises nothing; a term of 0 and a principal of 0 both give the empty
  schedule.
\<close>

theorem C8_empty_schedule:
  "berechne_vermoegensaufbau eigenkapital [] cashflow_jaehrlich wertsteigerung_prozent kaufpreis = Inr []
   \<and> berechne_tilgungsplan darlehensbetrag zinssatz_prozent tilgung_prozent 0 = []
   \<and> berechne_tilgungsplan 0 zinssatz_prozent tilgung_prozent laufzeit_jahre = []"
  by (simp add: berechne_vermoegensaufbau_def berechne_tilgungsplan_def loop_nonpos)

subsection \<open>Return ratios\<close>

text \<open>
  C6. \<^verbatim>\<open>berechne_renditen\<close> raises no division error for any input, and each ratio is
  exactly 0 whenever its denominator is \<le> 0: the gross yield for the purchase price, the
  net yield (and its alias, the asset-level return) and the cash-flow return for price +
  closing costs, the equity return for the equity; the numerators are arbitrary.
\<close>

theorem C6_renditen_guarded:
  "\<exists>r. berechne_renditen kaufpreis nebenkosten eigenkapital brutto_mieteinnahmen
           netto_mieteinnahmen cashflow_nach_steuern = Inr r
      \<and> (kaufpreis \<le> 0 \<longrightarrow> re_brutto_mietrendite r = 0)
      \<and> (kaufpreis + nebenkosten \<le> 0 \<longrightarrow>
            re_netto_mietrendite r = 0 \<and> re_objektrendite r = 0 \<and> re_cashflow_rendite r = 0)
      \<and> (eigenkapital \<le> 0 \<longrightarrow> re_eigenkapitalrendite r = 0)"
  by (simp add: berechne_renditen_def truediv_def Let_def)

theorem C6_renditen_guarded_witness:
  "(0::real) \<le> 0 \<and> (0::real) + 0 \<le> 0 \<and>
   (\<exists>r. berechne_renditen 0 0 0 12000 10560 500 = Inr r
      \<and> re_brutto_mietrendite r = 0 \<and> re_netto_mietrendite r = 0
      \<and> re_objektrendite r = 0 \<and> re_cashflow_rendite r = 0
      \<and> re_eigenkapitalrendite r = 0)"
  using C6_renditen_guarded[of 0 0 0 12000 10560 500] by simp

subsection \<open>Tax deductibility\<close>




subsection \<open>Closing costs\<close>




end
